theory Spec2Isabelle
  imports Main "HOL-Library.Sublist"
begin

section \<open>Python strings\<close>

text \<open>
  A Python \<^verbatim>\<open>str\<close> is a sequence of Unicode code points, so it is modelled as a list
  of code points (natural numbers) and not as a list of bytes. \<open>lit\<close> turns an ASCII
  literal of the source into such a string.
\<close>

type_synonym pystr = "nat list"

definition lit :: "string \<Rightarrow> pystr" where
  "lit s = map of_char s"

text \<open>
  \<^verbatim>\<open>str.isspace\<close> for one code point, as CPython's \<^verbatim>\<open>_PyUnicode_IsWhitespace\<close> has
  it: U+0009..U+000D, U+001C..U+0020, U+0085, U+00A0, U+1680, U+2000..U+200A, U+2028,
  U+2029, U+202F, U+205F, U+3000.
\<close>

definition isspace :: "nat \<Rightarrow> bool" where
  "isspace c \<longleftrightarrow>
     (9 \<le> c \<and> c \<le> 13) \<or> (28 \<le> c \<and> c \<le> 32) \<or> c = 133 \<or> c = 160 \<or> c = 5760 \<or>
     (8192 \<le> c \<and> c \<le> 8202) \<or> c = 8232 \<or> c = 8233 \<or> c = 8239 \<or> c = 8287 \<or> c = 12288"

text \<open>\<^verbatim>\<open>str.strip()\<close> with no argument: whitespace is dropped at both ends.\<close>

definition strip :: "pystr \<Rightarrow> pystr" where
  "strip s = rev (dropWhile isspace (rev (dropWhile isspace s)))"

section \<open>Exceptions\<close>

text \<open>
  An exception is its class name and the text \<^verbatim>\<open>str(e)\<close> gives. Every class that
  occurs (\<^verbatim>\<open>Exception\<close>, \<^verbatim>\<open>ValueError\<close>, \<^verbatim>\<open>IndexError\<close>, and the errors of the
  client library of the model service) derives from \<^verbatim>\<open>Exception\<close>, so a handler
  \<^verbatim>\<open>except Exception\<close> catches each of them.
\<close>

datatype py_exception = PyExc (exc_class: string) (str: pystr)

section \<open>The toolkit's widgets\<close>

text \<open>
  A Tk text widget holds its contents and its \<^verbatim>\<open>state\<close> option. Tk keeps one newline
  after the contents that cannot be deleted, and the index \<^verbatim>\<open>tk.END\<close> lies after it:
  \<^verbatim>\<open>get("1.0", tk.END)\<close> returns the contents followed by that newline. While the
  state is \<^verbatim>\<open>DISABLED\<close>, \<^verbatim>\<open>insert\<close> and \<^verbatim>\<open>delete\<close> are ignored.

  \<^verbatim>\<open>insert\<close> is given what Python passes as the characters, a string or \<^verbatim>\<open>None\<close>.
  tkinter cuts the arguments of a Tcl command at the first \<^verbatim>\<open>None\<close>, so with \<^verbatim>\<open>None\<close>
  the command has no characters at all and Tk refuses it: \<^verbatim>\<open>insert\<close> raises \<^verbatim>\<open>TclError\<close>,
  whatever the state of the widget. The error is given by its class name.
\<close>

datatype tk_state = NORMAL | DISABLED

record text_widget =
  contents :: pystr
  wstate :: tk_state

definition text_get :: "text_widget \<Rightarrow> pystr" where
  "text_get w = contents w @ [10]"

definition text_delete :: "text_widget \<Rightarrow> text_widget" where
  "text_delete w = (if wstate w = DISABLED then w else w\<lparr>contents := []\<rparr>)"

definition text_insert :: "pystr option \<Rightarrow> text_widget \<Rightarrow> string + text_widget" where
  "text_insert chars w =
     (case chars of
        None \<Rightarrow> Inl ''TclError''
      | Some cs \<Rightarrow> Inr (if wstate w = DISABLED then w else w\<lparr>contents := contents w @ cs\<rparr>))"

definition text_config :: "tk_state \<Rightarrow> text_widget \<Rightarrow> text_widget" where
  "text_config st w = w\<lparr>wstate := st\<rparr>"

section \<open>The model service\<close>

text \<open>
  A request is the list of keyword arguments of \<^verbatim>\<open>chat.completions.create\<close>, in the
  order written. A response is the list of its choices, each given by its
  \<^verbatim>\<open>message.content\<close>, which the client library types \<^verbatim>\<open>Optional[str]\<close>: a string, or
  \<^verbatim>\<open>None\<close> when the service sends a null content.

  A \<open>service\<close> is the method \<^verbatim>\<open>self.openai.chat.completions.create\<close> seen from the
  application: given the request, the call returns a response or raises. The functions
  of the application take it as a parameter, so what is proved of them holds of every
  client; the client that line 31 builds is \<open>OpenAI\<close> below.
\<close>

record message =
  role :: pystr
  content :: pystr

datatype kwarg = StrArg pystr | MessagesArg "message list"

type_synonym request = "(string \<times> kwarg) list"

record response =
  choices :: "pystr option list"

type_synonym service = "request \<Rightarrow> py_exception + response"

text \<open>
  One call of \<^verbatim>\<open>create\<close> by the application: the request is recorded in the log of the
  calls made of the client. The log counts calls of the client, not the requests the
  client sends over the network to serve them.
\<close>

definition chat_completions_create ::
    "service \<Rightarrow> request \<Rightarrow> request list \<Rightarrow> (py_exception + response) \<times> request list" where
  "chat_completions_create svc req log = (svc req, log @ [req])"

subsection \<open>The client and the network\<close>

text \<open>
  Line 31 builds the client as \<^verbatim>\<open>OpenAI(api_key=api_key)\<close>, with the library's default
  \<^verbatim>\<open>max_retries\<close>, which is 2. To serve one call of \<^verbatim>\<open>create\<close> the client sends the
  request over the network; when an attempt fails in a way the library takes to be
  transient (no connection, a timeout, a status 408, 409, 429 or 500 and above) and
  retries remain, it sends the same request again; otherwise it raises the error of the
  last attempt. An attempt either is answered or fails, and a failure says whether the
  library retries it and which exception the client raises for it once it gives up. The
  network is a parameter: the outcome of each attempt of a call, numbered from 0.
\<close>

datatype http_outcome = Answered response | Failed bool py_exception

type_synonym transport = "nat \<Rightarrow> request \<Rightarrow> http_outcome"

definition DEFAULT_MAX_RETRIES :: nat where
  "DEFAULT_MAX_RETRIES = 2"

text \<open>
  The client's loop, with the retries that remain and the retries taken: it gives what
  the call returns or raises, and the requests sent over the network, in order.
\<close>

fun request_with_retries ::
    "transport \<Rightarrow> nat \<Rightarrow> nat \<Rightarrow> request \<Rightarrow> (py_exception + response) \<times> request list" where
  "request_with_retries net 0 retries_taken req =
     (case net retries_taken req of
        Answered response \<Rightarrow> (Inr response, [req])
      | Failed retryable e \<Rightarrow> (Inl e, [req]))"
| "request_with_retries net (Suc remaining) retries_taken req =
     (case net retries_taken req of
        Answered response \<Rightarrow> (Inr response, [req])
      | Failed retryable e \<Rightarrow>
          if retryable then
            (let (r, sent) = request_with_retries net remaining (Suc retries_taken) req
             in (r, req # sent))
          else (Inl e, [req]))"

definition OpenAI :: "transport \<Rightarrow> service" where
  "OpenAI net req = fst (request_with_retries net DEFAULT_MAX_RETRIES 0 req)"

definition requests_sent :: "transport \<Rightarrow> request \<Rightarrow> request list" where
  "requests_sent net req = snd (request_with_retries net DEFAULT_MAX_RETRIES 0 req)"

text \<open>The requests that went over the network to serve a log of calls of the client.\<close>

definition wire_log :: "transport \<Rightarrow> request list \<Rightarrow> request list" where
  "wire_log net log = concat (map (requests_sent net) log)"

section \<open>The application\<close>

datatype callback = UpdateReply "pystr option" | ShowError pystr

text \<open>
  The state: the widgets and variables of \<^verbatim>\<open>EmailReplyGeneratorApp\<close>, the system
  clipboard, the background threads started and not yet run (each with its arguments),
  the callbacks handed to \<^verbatim>\<open>root.after\<close> and not yet run, and the log of the calls
  made of the client of the model service.
\<close>

record app =
  openai :: pystr
  email_input :: text_widget
  tone_var :: pystr
  reply_output :: text_widget
  generate_button :: tk_state
  status_var :: pystr
  clipboard :: pystr
  threads :: "(pystr \<times> pystr) list"
  after_queue :: "callback list"
  api_log :: "request list"

definition tones :: "pystr list" where
  "tones = [lit ''formal'', lit ''casual'', lit ''friendly'', lit ''professional'',
            lit ''enthusiastic'']"

text \<open>
  \<^verbatim>\<open>__init__\<close>, given the process environment (after \<^verbatim>\<open>load_dotenv\<close>) and the
  clipboard as the system has it at launch. The test \<^verbatim>\<open>not api_key\<close> holds for
  \<^verbatim>\<open>None\<close> (the variable is unset) and for the empty string alike. The layout of the
  window has no part in what follows and is left out.
\<close>

definition init :: "(pystr \<rightharpoonup> pystr) \<Rightarrow> pystr \<Rightarrow> py_exception + app" where
  "init environ clip =
     (let no_key = Inl (PyExc ''ValueError''
            (lit ''No OpenAI API key found. Please set OPENAI_API_KEY in your .env file.''))
      in case environ (lit ''OPENAI_API_KEY'') of
           None \<Rightarrow> no_key
         | Some api_key \<Rightarrow>
             if api_key = [] then no_key
             else
               Inr \<lparr>openai = api_key,
                    email_input =
                      \<lparr>contents = lit ''Enter the email you want to reply to here...'',
                       wstate = NORMAL\<rparr>,
                    tone_var = lit ''formal'',
                    reply_output = \<lparr>contents = [], wstate = DISABLED\<rparr>,
                    generate_button = NORMAL,
                    status_var = lit ''Ready'',
                    clipboard = clip,
                    threads = [],
                    after_queue = [],
                    api_log = []\<rparr>)"

text \<open>
  \<^verbatim>\<open>main\<close>: the process either ends with the exception that \<^verbatim>\<open>__init__\<close> raised, or
  enters \<^verbatim>\<open>root.mainloop()\<close> with the application built.
\<close>

datatype process = Crashed py_exception | Mainloop app

definition main :: "(pystr \<rightharpoonup> pystr) \<Rightarrow> pystr \<Rightarrow> process" where
  "main environ clip =
     (case init environ clip of Inl e \<Rightarrow> Crashed e | Inr a \<Rightarrow> Mainloop a)"

definition generate_reply :: "app \<Rightarrow> app" where
  "generate_reply s =
     (let email_content = strip (text_get (email_input s));
          tone = tone_var s
      in if email_content = [] then s\<lparr>status_var := lit ''Error: Please enter email content''\<rparr>
         else s\<lparr>generate_button := DISABLED,
                status_var := lit ''Generating reply...'',
                threads := threads s @ [(email_content, tone)]\<rparr>)"

text \<open>
  \<^verbatim>\<open>generate_email_reply\<close>: \<open>attempt\<close> is the outcome of the body of the \<^verbatim>\<open>try\<close>,
  where the call may raise and \<^verbatim>\<open>choices[0]\<close> raises \<^verbatim>\<open>IndexError\<close> on an empty list;
  the handler turns whatever was raised into one \<^verbatim>\<open>Exception\<close>. What is returned is
  the first candidate's content as it is, a string or \<^verbatim>\<open>None\<close>.
\<close>

definition generate_email_reply ::
    "service \<Rightarrow> pystr \<Rightarrow> pystr \<Rightarrow> request list \<Rightarrow>
       (py_exception + pystr option) \<times> request list" where
  "generate_email_reply svc email_content tone log =
     (let system_prompt = lit ''Rephrase the following email in a '' @ tone @ lit '' tone.'';
          user_prompt = lit ''Email content: '' @ email_content;
          (r, log') = chat_completions_create svc
            [(''model'', StrArg (lit ''gpt-4o-mini'')),
             (''messages'', MessagesArg
                [\<lparr>role = lit ''system'', content = system_prompt\<rparr>,
                 \<lparr>role = lit ''user'', content = user_prompt\<rparr>])] log;
          attempt =
            (case r of
               Inl e \<Rightarrow> Inl e
             | Inr response \<Rightarrow>
                 (case choices response of
                    [] \<Rightarrow> Inl (PyExc ''IndexError'' (lit ''list index out of range''))
                  | c # _ \<Rightarrow> Inr c))
      in (case attempt of
            Inl e \<Rightarrow> Inl (PyExc ''Exception'' (lit ''OpenAI API error: '' @ str e))
          | Inr reply \<Rightarrow> Inr reply,
          log'))"

text \<open>\<^verbatim>\<open>root.after(0, callback, argument)\<close> queues the callback for the event loop.\<close>

definition root_after :: "callback \<Rightarrow> app \<Rightarrow> app" where
  "root_after cb s = s\<lparr>after_queue := after_queue s @ [cb]\<rparr>"

definition process_reply :: "service \<Rightarrow> pystr \<Rightarrow> pystr \<Rightarrow> app \<Rightarrow> app" where
  "process_reply svc email_content tone s =
     (case generate_email_reply svc email_content tone (api_log s) of
        (Inr reply, log') \<Rightarrow> root_after (UpdateReply reply) (s\<lparr>api_log := log'\<rparr>)
      | (Inl e, log') \<Rightarrow> root_after (ShowError (str e)) (s\<lparr>api_log := log'\<rparr>))"

text \<open>
  A callback either returns or stops at an exception, given by its class name; either
  way it leaves a state behind.
\<close>

datatype callback_result = Returned (state_of: app) | Raised string (state_of: app)

text \<open>
  \<^verbatim>\<open>_update_reply\<close>: when \<^verbatim>\<open>insert\<close> raises (line 129), the output region has already
  been made editable and emptied, and the lines after it, which disable the region
  again, enable the generate control and set the status, do not run.
\<close>

definition update_reply :: "pystr option \<Rightarrow> app \<Rightarrow> callback_result" where
  "update_reply reply s =
     (let emptied = text_delete (text_config NORMAL (reply_output s))
      in case text_insert reply emptied of
           Inl err \<Rightarrow> Raised err (s\<lparr>reply_output := emptied\<rparr>)
         | Inr filled \<Rightarrow>
             Returned (s\<lparr>reply_output := text_config DISABLED filled,
                        generate_button := NORMAL,
                        status_var := lit ''Reply generated successfully''\<rparr>))"

definition show_error :: "pystr \<Rightarrow> app \<Rightarrow> app" where
  "show_error error_message s =
     s\<lparr>status_var := lit ''Error: '' @ error_message, generate_button := NORMAL\<rparr>"

definition clear_fields :: "app \<Rightarrow> app" where
  "clear_fields s =
     s\<lparr>email_input := text_delete (email_input s),
       reply_output := text_config DISABLED (text_delete (text_config NORMAL (reply_output s))),
       status_var := lit ''Fields cleared''\<rparr>"

definition clipboard_clear :: "app \<Rightarrow> app" where
  "clipboard_clear s = s\<lparr>clipboard := []\<rparr>"

definition clipboard_append :: "pystr \<Rightarrow> app \<Rightarrow> app" where
  "clipboard_append text s = s\<lparr>clipboard := clipboard s @ text\<rparr>"

definition copy_to_clipboard :: "app \<Rightarrow> app" where
  "copy_to_clipboard s =
     (let s1 = clipboard_clear s;
          s2 = clipboard_append (text_get (reply_output s1)) s1
      in s2\<lparr>status_var := lit ''Copied to clipboard''\<rparr>)"

subsection \<open>The runtime: threads and the event loop\<close>

text \<open>
  The oldest thread started runs \<^verbatim>\<open>_process_reply\<close> on its arguments; the event loop
  runs the oldest callback handed to \<^verbatim>\<open>root.after\<close>. When a callback raises, tkinter
  reports the exception and the event loop goes on from the state the callback left.
\<close>

definition thread_run :: "service \<Rightarrow> app \<Rightarrow> app" where
  "thread_run svc s =
     (case threads s of
        [] \<Rightarrow> s
      | (email_content, tone) # ts \<Rightarrow> process_reply svc email_content tone (s\<lparr>threads := ts\<rparr>))"

definition mainloop_step :: "app \<Rightarrow> app" where
  "mainloop_step s =
     (case after_queue s of
        [] \<Rightarrow> s
      | UpdateReply reply # q \<Rightarrow> state_of (update_reply reply (s\<lparr>after_queue := q\<rparr>))
      | ShowError msg # q \<Rightarrow> show_error msg (s\<lparr>after_queue := q\<rparr>))"

text \<open>
  What can happen while the event loop runs: the user clicks one of the three buttons
  (a click on a disabled button does not reach its command), edits the input region,
  picks a tone among those the read-only selector offers, or the runtime runs a thread
  or a callback.
\<close>

datatype event =
  ClickGenerate | ClickClear | ClickCopy | EditInput pystr | SelectTone pystr
  | ThreadRuns | CallbackRuns

fun fire :: "service \<Rightarrow> app \<Rightarrow> event \<Rightarrow> app" where
  "fire svc s ClickGenerate = (if generate_button s = DISABLED then s else generate_reply s)"
| "fire svc s ClickClear = clear_fields s"
| "fire svc s ClickCopy = copy_to_clipboard s"
| "fire svc s (EditInput chars) = s\<lparr>email_input := (email_input s)\<lparr>contents := chars\<rparr>\<rparr>"
| "fire svc s (SelectTone tone) = (if tone \<in> set tones then s\<lparr>tone_var := tone\<rparr> else s)"
| "fire svc s ThreadRuns = thread_run svc s"
| "fire svc s CallbackRuns = mainloop_step s"

text \<open>
  The single-flight guard: while the generate control is enabled nothing is pending, and
  while it is disabled at most one thread or callback is.
\<close>

definition single_flight :: "app \<Rightarrow> bool" where
  "single_flight s \<longleftrightarrow>
     (if generate_button s = NORMAL then threads s = [] \<and> after_queue s = []
      else length (threads s) + length (after_queue s) \<le> 1)"

subsection \<open>Test fixtures\<close>

text \<open>
  The application as launched, once the user has replaced the input region's text by
  \<open>text\<close> and picked \<open>tone\<close>; two stubs of the client, one that answers every call
  with a single candidate and one that answers with a candidate whose content is null;
  and a network on which every attempt fails for want of a connection, which the
  library retries.
\<close>

definition idle_app :: "pystr \<Rightarrow> pystr \<Rightarrow> app" where
  "idle_app text tone =
     \<lparr>openai = lit ''sk-test'',
      email_input = \<lparr>contents = text, wstate = NORMAL\<rparr>,
      tone_var = tone,
      reply_output = \<lparr>contents = [], wstate = DISABLED\<rparr>,
      generate_button = NORMAL,
      status_var = lit ''Ready'',
      clipboard = [],
      threads = [],
      after_queue = [],
      api_log = []\<rparr>"

definition stub_ok :: "pystr \<Rightarrow> service" where
  "stub_ok reply req = Inr \<lparr>choices = [Some reply]\<rparr>"

definition stub_null :: service where
  "stub_null req = Inr \<lparr>choices = [None]\<rparr>"

definition network_down :: transport where
  "network_down attempt req = Failed True (PyExc ''APIConnectionError'' (lit ''Connection error.''))"

section \<open>Lemmas on \<open>strip\<close>\<close>

lemma isspace_newline: "isspace 10"
  by (simp add: isspace_def)

lemma dropWhile_all_iff: "list_all P (dropWhile P s) \<longleftrightarrow> list_all P s"
  by (induction s) auto

lemma strip_Nil_iff: "strip s = [] \<longleftrightarrow> list_all isspace s"
proof -
  have "strip s = [] \<longleftrightarrow> list_all isspace (dropWhile isspace s)"
    by (simp add: strip_def dropWhile_eq_Nil_conv list_all_iff)
  then show ?thesis
    by (simp add: dropWhile_all_iff)
qed

lemma strip_snoc_space:
  assumes "isspace c"
  shows "strip (s @ [c]) = strip s"
proof (cases "list_all isspace s")
  case True
  then have "list_all isspace (s @ [c])"
    using assms by simp
  then have "strip (s @ [c]) = []"
    by (simp only: strip_Nil_iff)
  moreover have "strip s = []"
    using True by (simp only: strip_Nil_iff)
  ultimately show ?thesis
    by simp
next
  case False
  then obtain x where "x \<in> set s" and "\<not> isspace x"
    by (auto simp: list_all_iff)
  then have "dropWhile isspace (s @ [c]) = dropWhile isspace s @ [c]"
    by (rule dropWhile_append1)
  then show ?thesis
    using assms by (simp add: strip_def)
qed

text \<open>The newline that Tk appends to what a text widget returns is trimmed away.\<close>

lemma strip_text_get: "strip (text_get w) = strip (contents w)"
  by (simp add: text_get_def strip_snoc_space isspace_newline)

lemma hd_strip:
  assumes "strip s \<noteq> []"
  shows "\<not> isspace (hd (strip s))"
proof -
  let ?t = "dropWhile isspace s"
  let ?u = "dropWhile isspace (rev ?t)"
  have u: "?u \<noteq> []"
    using assms by (simp add: strip_def)
  then have t: "?t \<noteq> []"
    by (metis dropWhile.simps(1) rev.simps(1))
  have "hd (strip s) = last ?u"
    using u by (simp add: strip_def hd_rev)
  also have "\<dots> = last (rev ?t)"
    using u by (metis takeWhile_dropWhile_id last_appendR)
  also have "\<dots> = hd ?t"
    using t by (simp add: last_rev)
  finally show ?thesis
    using t by (simp add: hd_dropWhile)
qed

lemma last_strip:
  assumes "strip s \<noteq> []"
  shows "\<not> isspace (last (strip s))"
proof -
  let ?u = "dropWhile isspace (rev (dropWhile isspace s))"
  have u: "?u \<noteq> []"
    using assms by (simp add: strip_def)
  have "last (strip s) = hd ?u"
    using u by (simp add: strip_def last_rev)
  then show ?thesis
    using u by (simp add: hd_dropWhile)
qed

lemma strip_id:
  assumes "s \<noteq> []" and "\<not> isspace (hd s)" and "\<not> isspace (last s)"
  shows "strip s = s"
proof -
  have "dropWhile isspace s = s"
    using assms by (cases s) simp_all
  moreover have "dropWhile isspace (rev s) = rev s"
    using assms by (cases "rev s") (simp_all add: last_rev[symmetric] hd_rev)
  ultimately show ?thesis
    by (simp add: strip_def)
qed

section \<open>Lemmas on the request flow\<close>

lemma generate_reply_valid:
  assumes "strip (contents (email_input s)) \<noteq> []"
  shows "generate_reply s =
    s\<lparr>generate_button := DISABLED,
      status_var := lit ''Generating reply...'',
      threads := threads s @ [(strip (contents (email_input s)), tone_var s)]\<rparr>"
  using assms by (simp add: generate_reply_def strip_text_get)

lemma generate_reply_invalid:
  assumes "strip (contents (email_input s)) = []"
  shows "generate_reply s = s\<lparr>status_var := lit ''Error: Please enter email content''\<rparr>"
  using assms by (simp add: generate_reply_def strip_text_get)

lemma snd_generate_email_reply:
  "snd (generate_email_reply svc email_content tone log) =
     log @ [[(''model'', StrArg (lit ''gpt-4o-mini'')),
             (''messages'', MessagesArg
                [\<lparr>role = lit ''system'',
                  content = lit ''Rephrase the following email in a '' @ tone @ lit '' tone.''\<rparr>,
                 \<lparr>role = lit ''user'', content = lit ''Email content: '' @ email_content\<rparr>])]]"
  by (simp add: generate_email_reply_def chat_completions_create_def Let_def)

lemma api_log_process_reply:
  "api_log (process_reply svc email_content tone s) =
     snd (generate_email_reply svc email_content tone (api_log s))"
  by (simp add: process_reply_def root_after_def split: prod.splits sum.splits)

lemma threads_process_reply:
  "threads (process_reply svc email_content tone s) = threads s"
  by (simp add: process_reply_def root_after_def split: prod.splits sum.splits)

lemma thread_run_generate_reply:
  assumes "strip (contents (email_input s)) \<noteq> []" and "threads s = []"
  shows "thread_run svc (generate_reply s) =
    process_reply svc (strip (contents (email_input s))) (tone_var s)
      (s\<lparr>generate_button := DISABLED, status_var := lit ''Generating reply...'',
         threads := []\<rparr>)"
  using assms by (simp add: generate_reply_valid thread_run_def)

lemma generate_button_callbacks:
  "generate_button (state_of (update_reply (Some reply) s)) = NORMAL"
  "generate_button (show_error error_message s) = NORMAL"
  by (simp_all add: update_reply_def text_insert_def show_error_def Let_def)

lemma update_reply_text:
  "update_reply (Some reply) s =
     Returned (s\<lparr>reply_output := \<lparr>contents = reply, wstate = DISABLED\<rparr>,
                generate_button := NORMAL,
                status_var := lit ''Reply generated successfully''\<rparr>)"
  by (simp add: update_reply_def text_insert_def text_delete_def text_config_def Let_def)

lemma update_reply_null:
  "update_reply None s = Raised ''TclError'' (s\<lparr>reply_output := \<lparr>contents = [], wstate = NORMAL\<rparr>\<rparr>)"
  by (simp add: update_reply_def text_insert_def text_delete_def text_config_def Let_def)

lemma clipboard_copy_after_update:
  "clipboard (copy_to_clipboard (state_of (update_reply (Some text) s))) = text @ [10]"
  by (simp add: update_reply_text copy_to_clipboard_def clipboard_clear_def clipboard_append_def
      text_get_def Let_def)

lemma prefixed_strip_neq:
  assumes "strip x \<noteq> []"
  shows "lit ''Email content: '' @ strip x \<noteq> x"
proof
  let ?p = "lit ''Email content: ''"
  assume eq: "?p @ strip x = x"
  have p: "?p \<noteq> []" and hp: "\<not> isspace (hd ?p)"
    by (simp_all add: lit_def isspace_def)
  have x: "x \<noteq> []"
    using p eq by (metis append_is_Nil_conv)
  have h: "hd x = hd ?p"
    using p eq by (metis hd_append2)
  have l: "last x = last (strip x)"
    using assms eq by (metis last_appendR)
  have "\<not> isspace (hd x)"
    unfolding h by (rule hp)
  moreover have "\<not> isspace (last x)"
    unfolding l by (rule last_strip[OF assms])
  ultimately have sx: "strip x = x"
    using x by (rule_tac strip_id)
  have "length ?p + length x = length x"
    using eq sx by (metis length_append)
  then show False
    by (simp add: lit_def)
qed

subsection \<open>The input region stays editable\<close>

text \<open>
  The source never reconfigures \<^verbatim>\<open>email_input\<close>: it is created in Tk's default state
  \<^verbatim>\<open>NORMAL\<close> and every operation leaves its state as it is.
\<close>

lemma init_email_input_state:
  "init environ clip = Inr a \<Longrightarrow> wstate (email_input a) = NORMAL"
  by (auto simp: init_def Let_def split: option.splits if_splits)

lemma email_input_state_kept:
  "wstate (email_input (generate_reply s)) = wstate (email_input s)"
  "wstate (email_input (process_reply svc email_content tone s)) = wstate (email_input s)"
  "wstate (email_input (state_of (update_reply reply s))) = wstate (email_input s)"
  "wstate (email_input (show_error error_message s)) = wstate (email_input s)"
  "wstate (email_input (clear_fields s)) = wstate (email_input s)"
  "wstate (email_input (copy_to_clipboard s)) = wstate (email_input s)"
  by (simp_all add: generate_reply_def process_reply_def root_after_def update_reply_def
      show_error_def clear_fields_def text_delete_def copy_to_clipboard_def clipboard_clear_def
      clipboard_append_def Let_def split: prod.splits sum.splits)

subsection \<open>One request at a time\<close>

text \<open>
  From launch on, whatever happens, the single-flight guard holds: whenever the generate
  control is enabled, no thread and no callback is pending.
\<close>

lemma update_reply_frame:
  "threads (state_of (update_reply reply s)) = threads s"
  "after_queue (state_of (update_reply reply s)) = after_queue s"
  "generate_button (state_of (update_reply None s)) = generate_button s"
  by (simp_all add: update_reply_def text_insert_def Let_def split: sum.splits option.splits)

lemma single_flight_init: "init environ clip = Inr a \<Longrightarrow> single_flight a"
  by (auto simp: init_def single_flight_def Let_def split: option.splits if_splits)

lemma process_reply_frame:
  "generate_button (process_reply svc email_content tone s) = generate_button s"
  "length (after_queue (process_reply svc email_content tone s)) = Suc (length (after_queue s))"
  by (simp_all add: process_reply_def root_after_def split: prod.splits sum.splits)

lemma single_flight_fire:
  assumes "single_flight s"
  shows "single_flight (fire svc s ev)"
proof (cases ev)
  case ClickGenerate
  show ?thesis
  proof (cases "strip (contents (email_input s)) = []")
    case True
    then show ?thesis
      using assms ClickGenerate
      by (auto simp: generate_reply_invalid single_flight_def split: if_splits)
  next
    case False
    then show ?thesis
      using assms ClickGenerate
      by (cases "generate_button s")
        (auto simp: generate_reply_valid single_flight_def split: if_splits)
  qed
next
  case ClickClear
  then show ?thesis
    using assms by (auto simp: clear_fields_def single_flight_def split: if_splits)
next
  case ClickCopy
  then show ?thesis
    using assms
    by (auto simp: copy_to_clipboard_def clipboard_clear_def clipboard_append_def
        single_flight_def Let_def split: if_splits)
next
  case (EditInput chars)
  then show ?thesis
    using assms by (auto simp: single_flight_def split: if_splits)
next
  case (SelectTone tone)
  then show ?thesis
    using assms by (auto simp: single_flight_def split: if_splits)
next
  case ThreadRuns
  show ?thesis
  proof (cases "threads s")
    case Nil
    then show ?thesis
      using assms ThreadRuns by (simp add: thread_run_def)
  next
    case (Cons a ts)
    obtain email_content tone where a: "a = (email_content, tone)"
      by (cases a)
    have r: "fire svc s ev = process_reply svc email_content tone (s\<lparr>threads := ts\<rparr>)"
      using ThreadRuns Cons a by (simp add: thread_run_def)
    have "generate_button s = DISABLED" and "ts = []" and "after_queue s = []"
      using assms Cons by (cases "generate_button s"; simp add: single_flight_def)+
    then show ?thesis
      unfolding r by (simp add: single_flight_def process_reply_frame threads_process_reply)
  qed
next
  case CallbackRuns
  show ?thesis
  proof (cases "after_queue s")
    case Nil
    then show ?thesis
      using assms CallbackRuns by (simp add: mainloop_step_def)
  next
    case (Cons cb q)
    have p: "threads s = []" "q = []"
      using assms Cons by (cases "generate_button s"; simp add: single_flight_def)+
    show ?thesis
    proof (cases cb)
      case (UpdateReply reply)
      then have r: "fire svc s ev = state_of (update_reply reply (s\<lparr>after_queue := []\<rparr>))"
        using CallbackRuns Cons p by (simp add: mainloop_step_def)
      show ?thesis
        unfolding r using p by (simp add: single_flight_def update_reply_frame)
    next
      case (ShowError msg)
      then show ?thesis
        using CallbackRuns Cons p by (simp add: mainloop_step_def show_error_def single_flight_def)
    qed
  qed
qed

lemma single_flight_run:
  "single_flight s \<Longrightarrow> single_flight (foldl (fire svc) s evs)"
  by (induction evs arbitrary: s) (simp_all add: single_flight_fire)

lemma input_editable_run:
  "wstate (email_input (foldl (fire svc) s evs)) = wstate (email_input s)"
proof (induction evs arbitrary: s)
  case Nil
  show ?case by simp
next
  case (Cons ev evs)
  have "wstate (email_input (fire svc s ev)) = wstate (email_input s)"
    by (cases ev)
      (simp_all add: email_input_state_kept thread_run_def mainloop_step_def
        split: list.splits prod.splits callback.splits)
  with Cons show ?case by simp
qed

lemma clickable_is_idle:
  assumes "init environ clip = Inr a" and "generate_button (foldl (fire svc) a evs) = NORMAL"
  shows "threads (foldl (fire svc) a evs) = [] \<and> after_queue (foldl (fire svc) a evs) = []"
proof -
  have "single_flight (foldl (fire svc) a evs)"
    using assms(1) by (intro single_flight_run single_flight_init)
  then show ?thesis
    using assms(2) by (simp add: single_flight_def)
qed

subsection \<open>A control left disabled stays disabled\<close>

text \<open>
  Only the two callbacks enable the generate control. Once it is disabled with no thread
  and no callback pending, nothing that can happen enables it again.
\<close>

lemma stuck_fire:
  assumes "generate_button s = DISABLED" and "threads s = []" and "after_queue s = []"
  shows "generate_button (fire svc s ev) = DISABLED \<and> threads (fire svc s ev) = [] \<and>
    after_queue (fire svc s ev) = []"
  using assms
  by (cases ev)
    (simp_all add: clear_fields_def copy_to_clipboard_def clipboard_clear_def
      clipboard_append_def thread_run_def mainloop_step_def Let_def)

lemma stuck_run:
  assumes "generate_button s = DISABLED" and "threads s = []" and "after_queue s = []"
  shows "generate_button (foldl (fire svc) s evs) = DISABLED"
  using assms
proof (induction evs arbitrary: s)
  case Nil
  then show ?case by simp
next
  case (Cons ev evs)
  have "generate_button (fire svc s ev) = DISABLED \<and> threads (fire svc s ev) = [] \<and>
      after_queue (fire svc s ev) = []"
    using Cons.prems by (rule stuck_fire)
  then show ?case
    using Cons.IH by simp
qed

subsection \<open>Where a completed request does enable the control\<close>

text \<open>
  A request that passes validation, made with nothing pending, ends with the generate
  control enabled whenever \<^verbatim>\<open>generate_email_reply\<close> raises or returns a string, that
  is, in every case but that of a null content.
\<close>

lemma completed_request_reenables_unless_null:
  assumes "strip (contents (email_input s)) \<noteq> []" and "threads s = []" and "after_queue s = []"
    and "fst (generate_email_reply svc (strip (contents (email_input s))) (tone_var s)
           (api_log s)) \<noteq> Inr None"
  shows "generate_button (mainloop_step (thread_run svc (generate_reply s))) = NORMAL"
proof -
  let ?d = "thread_run svc (generate_reply s)"
  have d: "?d = process_reply svc (strip (contents (email_input s))) (tone_var s)
      (s\<lparr>generate_button := DISABLED, status_var := lit ''Generating reply...'',
         threads := []\<rparr>)"
    using assms(1,2) by (rule thread_run_generate_reply)
  have "(\<exists>reply. after_queue ?d = [UpdateReply (Some reply)]) \<or>
      (\<exists>msg. after_queue ?d = [ShowError msg])"
    unfolding d using assms(3,4)
    by (auto simp: process_reply_def root_after_def split: prod.splits sum.splits option.splits)
  then show ?thesis
  proof
    assume "\<exists>reply. after_queue ?d = [UpdateReply (Some reply)]"
    then obtain reply where "after_queue ?d = [UpdateReply (Some reply)]" ..
    then have "mainloop_step ?d = state_of (update_reply (Some reply) (?d\<lparr>after_queue := []\<rparr>))"
      by (simp add: mainloop_step_def)
    then show ?thesis
      by (simp only: generate_button_callbacks)
  next
    assume "\<exists>msg. after_queue ?d = [ShowError msg]"
    then obtain msg where "after_queue ?d = [ShowError msg]" ..
    then have "mainloop_step ?d = show_error msg (?d\<lparr>after_queue := []\<rparr>)"
      by (simp add: mainloop_step_def)
    then show ?thesis
      by (simp only: generate_button_callbacks)
  qed
qed

section \<open>Lemmas on the client's retries\<close>

lemma request_with_retries_sent:
  "\<exists>k. 1 \<le> k \<and> k \<le> Suc remaining \<and>
     snd (request_with_retries net remaining retries_taken req) = replicate k req"
proof (induction remaining arbitrary: retries_taken)
  case 0
  have "snd (request_with_retries net 0 retries_taken req) = replicate 1 req"
    by (simp split: http_outcome.splits)
  then show ?case
    by (intro exI[of _ 1]) simp
next
  case (Suc remaining)
  obtain k where k: "1 \<le> k" "k \<le> Suc remaining"
    and s: "snd (request_with_retries net remaining (Suc retries_taken) req) = replicate k req"
    using Suc.IH by blast
  show ?case
  proof (cases "net retries_taken req")
    case (Answered response)
    then have "snd (request_with_retries net (Suc remaining) retries_taken req) = replicate 1 req"
      by simp
    then show ?thesis
      by (intro exI[of _ 1]) simp
  next
    case (Failed retryable e)
    show ?thesis
    proof (cases retryable)
      case True
      then have "snd (request_with_retries net (Suc remaining) retries_taken req) =
          replicate (Suc k) req"
        using Failed s by (simp add: split_beta)
      then show ?thesis
        using k by (intro exI[of _ "Suc k"]) simp
    next
      case False
      then have "snd (request_with_retries net (Suc remaining) retries_taken req) =
          replicate 1 req"
        using Failed by simp
      then show ?thesis
        by (intro exI[of _ 1]) simp
    qed
  qed
qed

lemma requests_sent_bounds:
  "\<exists>k. 1 \<le> k \<and> k \<le> 3 \<and> requests_sent net req = replicate k req"
proof -
  obtain k where "1 \<le> k" and "k \<le> Suc DEFAULT_MAX_RETRIES"
    and "snd (request_with_retries net DEFAULT_MAX_RETRIES 0 req) = replicate k req"
    using request_with_retries_sent by blast
  then show ?thesis
    by (intro exI[of _ k]) (simp add: requests_sent_def DEFAULT_MAX_RETRIES_def)
qed

lemma requests_sent_not_retried:
  assumes "net 0 req = Failed False e0"
  shows "OpenAI net req = Inl e0" and "requests_sent net req = [req]"
  using assms
  by (simp_all add: OpenAI_def requests_sent_def DEFAULT_MAX_RETRIES_def numeral_2_eq_2)

lemma requests_sent_retried_twice:
  assumes "net 0 req = Failed True e0" and "net 1 req = Failed True e1"
  shows "requests_sent net req = [req, req, req]"
  using assms
  by (simp add: requests_sent_def DEFAULT_MAX_RETRIES_def numeral_2_eq_2 split_beta
      split: http_outcome.splits)

lemma wire_log_snoc: "wire_log net (log @ [req]) = wire_log net log @ requests_sent net req"
  by (simp add: wire_log_def)

section \<open>The claims\<close>

subsection \<open>C1: what a valid request dispatches\<close>

text \<open>
  C1, as stated, fails. The claim asks that the content part of the one call dispatched
  contain the literal email text. \<^verbatim>\<open>generate_reply\<close> trims the text it reads before
  handing it on, so for the input \<^verbatim>\<open>"hi "\<close> (non-empty after trimming) and the tone
  \<^verbatim>\<open>formal\<close> the one request made carries the content \<^verbatim>\<open>"Email content: hi"\<close>, in
  which \<^verbatim>\<open>"hi "\<close> does not occur.
\<close>

theorem generate_reply_literal_text_counterexample:
  "strip (contents (email_input (idle_app (lit ''hi '') (lit ''formal'')))) \<noteq> [] \<and>
   lit ''formal'' \<in> set tones \<and>
   api_log (thread_run (stub_ok (lit ''ok'')) (generate_reply (idle_app (lit ''hi '') (lit ''formal'')))) =
     [[(''model'', StrArg (lit ''gpt-4o-mini'')),
       (''messages'', MessagesArg
          [\<lparr>role = lit ''system'', content = lit ''Rephrase the following email in a formal tone.''\<rparr>,
           \<lparr>role = lit ''user'', content = lit ''Email content: hi''\<rparr>])]] \<and>
   \<not> sublist (contents (email_input (idle_app (lit ''hi '') (lit ''formal''))))
       (lit ''Email content: hi'')"
  by (simp add: idle_app_def generate_reply_def thread_run_def process_reply_def
      generate_email_reply_def chat_completions_create_def root_after_def stub_ok_def
      text_get_def strip_def isspace_def tones_def lit_def sublist_Cons_right Let_def)

text \<open>
  C1, amended: for every email text that is non-empty after trimming and every tone,
  \<^verbatim>\<open>generate_reply\<close> starts exactly one background thread, and that thread makes
  exactly one call of the model service. Its instruction part is exactly
  \<^verbatim>\<open>"Rephrase the following email in a {tone} tone."\<close> and its content part contains
  the email text with its surrounding whitespace trimmed. The state is one with no
  thread of an earlier request pending, as every state is in which the generate control
  is enabled (\<open>clickable_is_idle\<close>).
\<close>

theorem generate_reply_dispatches_one_call:
  assumes "strip (contents (email_input s)) \<noteq> []" and "threads s = []"
  shows "threads (generate_reply s) = [(strip (contents (email_input s)), tone_var s)] \<and>
    threads (thread_run svc (generate_reply s)) = [] \<and>
    (\<exists>c. api_log (thread_run svc (generate_reply s)) =
       api_log s @
       [[(''model'', StrArg (lit ''gpt-4o-mini'')),
         (''messages'', MessagesArg
            [\<lparr>role = lit ''system'',
              content = lit ''Rephrase the following email in a '' @ tone_var s @ lit '' tone.''\<rparr>,
             \<lparr>role = lit ''user'', content = c\<rparr>])]] \<and>
       sublist (strip (contents (email_input s))) c)"
proof -
  let ?e = "strip (contents (email_input s))"
  have "threads (generate_reply s) = [(?e, tone_var s)]"
    using assms by (simp add: generate_reply_valid)
  moreover have "threads (thread_run svc (generate_reply s)) = []"
    using assms by (simp add: thread_run_generate_reply threads_process_reply)
  moreover have "api_log (thread_run svc (generate_reply s)) =
       api_log s @
       [[(''model'', StrArg (lit ''gpt-4o-mini'')),
         (''messages'', MessagesArg
            [\<lparr>role = lit ''system'',
              content = lit ''Rephrase the following email in a '' @ tone_var s @ lit '' tone.''\<rparr>,
             \<lparr>role = lit ''user'', content = lit ''Email content: '' @ ?e\<rparr>])]]"
    using assms
    by (simp add: thread_run_generate_reply api_log_process_reply snd_generate_email_reply)
  moreover have "sublist ?e (lit ''Email content: '' @ ?e)"
    by (rule sublist_append_leftI)
  ultimately show ?thesis
    by blast
qed

text \<open>
  C1, witness: the scenario of the specification, input \<^verbatim>\<open>"Hi, can we reschedule?"\<close>
  with the tone \<^verbatim>\<open>casual\<close>.
\<close>

theorem generate_reply_dispatches_one_call_witness:
  "strip (contents (email_input (idle_app (lit ''Hi, can we reschedule?'') (lit ''casual'')))) \<noteq> [] \<and>
   threads (idle_app (lit ''Hi, can we reschedule?'') (lit ''casual'')) = [] \<and>
   (\<exists>c. api_log (thread_run (stub_ok (lit ''Sure, how about Friday?''))
          (generate_reply (idle_app (lit ''Hi, can we reschedule?'') (lit ''casual'')))) =
       [[(''model'', StrArg (lit ''gpt-4o-mini'')),
         (''messages'', MessagesArg
            [\<lparr>role = lit ''system'',
              content = lit ''Rephrase the following email in a casual tone.''\<rparr>,
             \<lparr>role = lit ''user'', content = c\<rparr>])]] \<and>
       sublist (lit ''Hi, can we reschedule?'') c)"
proof -
  let ?s = "idle_app (lit ''Hi, can we reschedule?'') (lit ''casual'')"
  have e: "strip (contents (email_input ?s)) = lit ''Hi, can we reschedule?''"
    by (simp add: idle_app_def strip_def lit_def isspace_def)
  have h1: "strip (contents (email_input ?s)) \<noteq> []"
    unfolding e by (simp add: lit_def)
  have h2: "threads ?s = []"
    by (simp add: idle_app_def)
  have l: "api_log ?s = []" and t: "tone_var ?s = lit ''casual''"
    by (simp_all add: idle_app_def)
  have c: "lit ''Rephrase the following email in a '' @ lit ''casual'' @ lit '' tone.'' =
      lit ''Rephrase the following email in a casual tone.''"
    by (simp add: lit_def)
  show ?thesis
    using generate_reply_dispatches_one_call
      [OF h1 h2, of "stub_ok (lit ''Sure, how about Friday?'')"] h1 h2
    unfolding e l t c by simp
qed

subsection \<open>C2: blank input\<close>

text \<open>
  C2: when the email text is empty or all whitespace, \<^verbatim>\<open>generate_reply\<close> changes
  nothing but the status, which becomes the error message
  \<^verbatim>\<open>"Error: Please enter email content"\<close>: no thread is started, no callback is
  scheduled, no call of the model service is made, and with no thread pending there is
  no background work to run afterwards.
\<close>

theorem generate_reply_blank_input:
  assumes "list_all isspace (contents (email_input s))"
  shows "generate_reply s = s\<lparr>status_var := lit ''Error: Please enter email content''\<rparr> \<and>
    threads (generate_reply s) = threads s \<and>
    after_queue (generate_reply s) = after_queue s \<and>
    api_log (generate_reply s) = api_log s \<and>
    (threads s = [] \<longrightarrow> thread_run svc (generate_reply s) = generate_reply s)"
proof -
  have "strip (contents (email_input s)) = []"
    using assms by (simp only: strip_Nil_iff)
  then have "generate_reply s = s\<lparr>status_var := lit ''Error: Please enter email content''\<rparr>"
    by (rule generate_reply_invalid)
  then show ?thesis
    by (simp add: thread_run_def)
qed

text \<open>C2, witness: an input of two spaces.\<close>

theorem generate_reply_blank_input_witness:
  "list_all isspace (contents (email_input (idle_app (lit ''  '') (lit ''formal'')))) \<and>
   threads (idle_app (lit ''  '') (lit ''formal'')) = [] \<and>
   generate_reply (idle_app (lit ''  '') (lit ''formal'')) =
     (idle_app (lit ''  '') (lit ''formal''))\<lparr>status_var := lit ''Error: Please enter email content''\<rparr> \<and>
   threads (generate_reply (idle_app (lit ''  '') (lit ''formal''))) = [] \<and>
   api_log (generate_reply (idle_app (lit ''  '') (lit ''formal''))) = [] \<and>
   thread_run (stub_ok (lit ''ok'')) (generate_reply (idle_app (lit ''  '') (lit ''formal''))) =
     generate_reply (idle_app (lit ''  '') (lit ''formal''))"
proof -
  let ?s = "idle_app (lit ''  '') (lit ''formal'')"
  have h: "list_all isspace (contents (email_input ?s))"
    by (simp add: idle_app_def lit_def isspace_def)
  have t: "threads ?s = []" and l: "api_log ?s = []"
    by (simp_all add: idle_app_def)
  note th = generate_reply_blank_input [OF h, of "stub_ok (lit ''ok'')"]
  have "threads (generate_reply ?s) = []" and "api_log (generate_reply ?s) = []"
    using th t l by simp_all
  then show ?thesis
    using th h t by blast
qed

subsection \<open>C3: rendering a result and copying it\<close>

text \<open>
  C3: the claim is that \<^verbatim>\<open>_update_reply(text)\<close> followed by \<^verbatim>\<open>copy_to_clipboard()\<close>
  leaves exactly \<open>text\<close> on the clipboard. The code reads the output region with
  \<^verbatim>\<open>get("1.0", tk.END)\<close>, which includes the newline Tk keeps after the contents: for
  the reply \<^verbatim>\<open>"Sure, how about Friday?"\<close> the clipboard holds the reply followed by a
  newline, one character more than the claim allows.
\<close>

theorem copy_to_clipboard_appends_newline:
  "clipboard (copy_to_clipboard (state_of (update_reply (Some (lit ''Sure, how about Friday?''))
      (idle_app (lit ''Hi, can we reschedule?'') (lit ''casual''))))) =
     lit ''Sure, how about Friday?'' @ [10] \<and>
   clipboard (copy_to_clipboard (state_of (update_reply (Some (lit ''Sure, how about Friday?''))
      (idle_app (lit ''Hi, can we reschedule?'') (lit ''casual''))))) \<noteq>
     lit ''Sure, how about Friday?''"
  by (simp add: clipboard_copy_after_update)

subsection \<open>C4: a failing service call\<close>

text \<open>
  C4, as stated, fails in its last part: a retry is attempted, by the client. With the
  network down, one call of \<^verbatim>\<open>generate_email_reply\<close> on the client of line 31 raises
  the one \<^verbatim>\<open>Exception\<close> the claim describes, after one call of the client, but the
  client has sent the request three times: the first attempt and the two retries of the
  library's default.
\<close>

theorem generate_email_reply_retry_counterexample:
  "generate_email_reply (OpenAI network_down) (lit ''Hi, can we reschedule?'') (lit ''casual'') [] =
     (Inl (PyExc ''Exception'' (lit ''OpenAI API error: Connection error.'')),
      [[(''model'', StrArg (lit ''gpt-4o-mini'')),
        (''messages'', MessagesArg
           [\<lparr>role = lit ''system'', content = lit ''Rephrase the following email in a casual tone.''\<rparr>,
            \<lparr>role = lit ''user'', content = lit ''Email content: Hi, can we reschedule?''\<rparr>])]]) \<and>
   length (wire_log network_down
     (snd (generate_email_reply (OpenAI network_down) (lit ''Hi, can we reschedule?'')
        (lit ''casual'') []))) = 3"
proof -
  have c1: "lit ''Rephrase the following email in a '' @ lit ''casual'' @ lit '' tone.'' =
      lit ''Rephrase the following email in a casual tone.''"
    and c2: "lit ''Email content: '' @ lit ''Hi, can we reschedule?'' =
      lit ''Email content: Hi, can we reschedule?''"
    and c3: "lit ''OpenAI API error: '' @ lit ''Connection error.'' =
      lit ''OpenAI API error: Connection error.''"
    by (simp_all add: lit_def)
  have o: "OpenAI network_down req = Inl (PyExc ''APIConnectionError'' (lit ''Connection error.''))"
    for req
    by (simp add: OpenAI_def DEFAULT_MAX_RETRIES_def numeral_2_eq_2 network_down_def)
  have r: "requests_sent network_down req = [req, req, req]" for req
    by (simp add: requests_sent_def DEFAULT_MAX_RETRIES_def numeral_2_eq_2 network_down_def)
  have g: "generate_email_reply (OpenAI network_down) (lit ''Hi, can we reschedule?'')
      (lit ''casual'') [] =
     (Inl (PyExc ''Exception'' (lit ''OpenAI API error: Connection error.'')),
      [[(''model'', StrArg (lit ''gpt-4o-mini'')),
        (''messages'', MessagesArg
           [\<lparr>role = lit ''system'', content = lit ''Rephrase the following email in a casual tone.''\<rparr>,
            \<lparr>role = lit ''user'', content = lit ''Email content: Hi, can we reschedule?''\<rparr>])]])"
    by (simp add: generate_email_reply_def chat_completions_create_def o Let_def c1 c2 c3)
  show ?thesis
    unfolding g by (simp add: wire_log_def r)
qed

text \<open>
  C4, amended: whenever the call of the client raises, \<^verbatim>\<open>generate_email_reply\<close> raises
  one exception whose message is \<^verbatim>\<open>"OpenAI API error: "\<close> followed by the message of
  the error caught, which it therefore contains; it has called the client once and
  retries nothing itself. The client, built with the library's default of two retries,
  has sent the request at least once and at most three times: once when the first
  attempt fails with an error the library does not retry, three times when the first two
  attempts fail with errors it retries.
\<close>

theorem generate_email_reply_service_failure:
  assumes "OpenAI net
             [(''model'', StrArg (lit ''gpt-4o-mini'')),
              (''messages'', MessagesArg
                 [\<lparr>role = lit ''system'',
                   content = lit ''Rephrase the following email in a '' @ tone @ lit '' tone.''\<rparr>,
                  \<lparr>role = lit ''user'', content = lit ''Email content: '' @ email_content\<rparr>])]
           = Inl e"
  shows "generate_email_reply (OpenAI net) email_content tone log =
      (Inl (PyExc ''Exception'' (lit ''OpenAI API error: '' @ str e)),
       log @ [[(''model'', StrArg (lit ''gpt-4o-mini'')),
               (''messages'', MessagesArg
                  [\<lparr>role = lit ''system'',
                    content = lit ''Rephrase the following email in a '' @ tone @ lit '' tone.''\<rparr>,
                   \<lparr>role = lit ''user'', content = lit ''Email content: '' @ email_content\<rparr>])]]) \<and>
    sublist (str e) (lit ''OpenAI API error: '' @ str e) \<and>
    (\<exists>k. 1 \<le> k \<and> k \<le> 3 \<and>
       wire_log net (snd (generate_email_reply (OpenAI net) email_content tone log)) =
         wire_log net log @
         replicate k
           [(''model'', StrArg (lit ''gpt-4o-mini'')),
            (''messages'', MessagesArg
               [\<lparr>role = lit ''system'',
                 content = lit ''Rephrase the following email in a '' @ tone @ lit '' tone.''\<rparr>,
                \<lparr>role = lit ''user'', content = lit ''Email content: '' @ email_content\<rparr>])]) \<and>
    (\<forall>e0. net 0
            [(''model'', StrArg (lit ''gpt-4o-mini'')),
             (''messages'', MessagesArg
                [\<lparr>role = lit ''system'',
                  content = lit ''Rephrase the following email in a '' @ tone @ lit '' tone.''\<rparr>,
                 \<lparr>role = lit ''user'', content = lit ''Email content: '' @ email_content\<rparr>])]
          = Failed False e0 \<longrightarrow>
        e = e0 \<and>
        length (wire_log net (snd (generate_email_reply (OpenAI net) email_content tone log))) =
          length (wire_log net log) + 1) \<and>
    (\<forall>e0 e1.
        net 0
            [(''model'', StrArg (lit ''gpt-4o-mini'')),
             (''messages'', MessagesArg
                [\<lparr>role = lit ''system'',
                  content = lit ''Rephrase the following email in a '' @ tone @ lit '' tone.''\<rparr>,
                 \<lparr>role = lit ''user'', content = lit ''Email content: '' @ email_content\<rparr>])]
          = Failed True e0 \<and>
        net 1
            [(''model'', StrArg (lit ''gpt-4o-mini'')),
             (''messages'', MessagesArg
                [\<lparr>role = lit ''system'',
                  content = lit ''Rephrase the following email in a '' @ tone @ lit '' tone.''\<rparr>,
                 \<lparr>role = lit ''user'', content = lit ''Email content: '' @ email_content\<rparr>])]
          = Failed True e1 \<longrightarrow>
        length (wire_log net (snd (generate_email_reply (OpenAI net) email_content tone log))) =
          length (wire_log net log) + 3)"
proof -
  let ?req = "[(''model'', StrArg (lit ''gpt-4o-mini'')),
               (''messages'', MessagesArg
                  [\<lparr>role = lit ''system'',
                    content = lit ''Rephrase the following email in a '' @ tone @ lit '' tone.''\<rparr>,
                   \<lparr>role = lit ''user'', content = lit ''Email content: '' @ email_content\<rparr>])]"
  have g: "generate_email_reply (OpenAI net) email_content tone log =
      (Inl (PyExc ''Exception'' (lit ''OpenAI API error: '' @ str e)), log @ [?req])"
    using assms by (simp add: generate_email_reply_def chat_completions_create_def Let_def)
  have w: "wire_log net (snd (generate_email_reply (OpenAI net) email_content tone log)) =
      wire_log net log @ requests_sent net ?req"
    by (simp add: snd_generate_email_reply wire_log_snoc)
  have b: "\<exists>k. 1 \<le> k \<and> k \<le> 3 \<and> requests_sent net ?req = replicate k ?req"
    by (rule requests_sent_bounds)
  have n: "e = e0 \<and> requests_sent net ?req = [?req]" if "net 0 ?req = Failed False e0" for e0
  proof -
    have "OpenAI net ?req = Inl e0" and "requests_sent net ?req = [?req]"
      using that by (rule requests_sent_not_retried)+
    then show ?thesis
      using assms by simp
  qed
  have r: "requests_sent net ?req = [?req, ?req, ?req]"
    if "net 0 ?req = Failed True e0" and "net 1 ?req = Failed True e1" for e0 e1
    using that by (rule requests_sent_retried_twice)
  have "sublist (str e) (lit ''OpenAI API error: '' @ str e)"
    by (rule sublist_append_leftI)
  moreover have "\<exists>k. 1 \<le> k \<and> k \<le> 3 \<and>
      wire_log net (snd (generate_email_reply (OpenAI net) email_content tone log)) =
        wire_log net log @ replicate k ?req"
    using b unfolding w by auto
  moreover have "\<forall>e0. net 0 ?req = Failed False e0 \<longrightarrow>
      e = e0 \<and>
      length (wire_log net (snd (generate_email_reply (OpenAI net) email_content tone log))) =
        length (wire_log net log) + 1"
    unfolding w using n by simp
  moreover have "\<forall>e0 e1. net 0 ?req = Failed True e0 \<and> net 1 ?req = Failed True e1 \<longrightarrow>
      length (wire_log net (snd (generate_email_reply (OpenAI net) email_content tone log))) =
        length (wire_log net log) + 3"
    unfolding w using r by simp
  ultimately show ?thesis
    using g by blast
qed

text \<open>
  C4, witness: the network down, where every attempt fails with \<^verbatim>\<open>"Connection error."\<close>
  and is retried.
\<close>

theorem generate_email_reply_service_failure_witness:
  "OpenAI network_down
     [(''model'', StrArg (lit ''gpt-4o-mini'')),
      (''messages'', MessagesArg
         [\<lparr>role = lit ''system'',
           content = lit ''Rephrase the following email in a '' @ lit ''casual'' @ lit '' tone.''\<rparr>,
          \<lparr>role = lit ''user'', content = lit ''Email content: '' @ lit ''Hi, can we reschedule?''\<rparr>])]
     = Inl (PyExc ''APIConnectionError'' (lit ''Connection error.'')) \<and>
   fst (generate_email_reply (OpenAI network_down) (lit ''Hi, can we reschedule?'')
         (lit ''casual'') []) =
      Inl (PyExc ''Exception'' (lit ''OpenAI API error: Connection error.'')) \<and>
   length (snd (generate_email_reply (OpenAI network_down) (lit ''Hi, can we reschedule?'')
         (lit ''casual'') [])) = 1 \<and>
   length (wire_log network_down
     (snd (generate_email_reply (OpenAI network_down) (lit ''Hi, can we reschedule?'')
        (lit ''casual'') []))) = 3"
proof -
  let ?req = "[(''model'', StrArg (lit ''gpt-4o-mini'')),
      (''messages'', MessagesArg
         [\<lparr>role = lit ''system'',
           content = lit ''Rephrase the following email in a '' @ lit ''casual'' @ lit '' tone.''\<rparr>,
          \<lparr>role = lit ''user'', content = lit ''Email content: '' @ lit ''Hi, can we reschedule?''\<rparr>])]"
  have h: "OpenAI network_down ?req = Inl (PyExc ''APIConnectionError'' (lit ''Connection error.''))"
    by (simp add: OpenAI_def DEFAULT_MAX_RETRIES_def numeral_2_eq_2 network_down_def)
  have f: "network_down 0 ?req = Failed True (PyExc ''APIConnectionError'' (lit ''Connection error.''))"
    and f1: "network_down 1 ?req = Failed True (PyExc ''APIConnectionError'' (lit ''Connection error.''))"
    by (simp_all add: network_down_def)
  have c: "lit ''OpenAI API error: '' @ lit ''Connection error.'' = lit ''OpenAI API error: Connection error.''"
    by (simp add: lit_def)
  have l: "wire_log network_down [] = []"
    by (simp add: wire_log_def)
  note th = generate_email_reply_service_failure
      [where net = network_down and tone = "lit ''casual''"
         and email_content = "lit ''Hi, can we reschedule?''" and log = "[]", OF h]
  have "fst (generate_email_reply (OpenAI network_down) (lit ''Hi, can we reschedule?'')
         (lit ''casual'') []) =
      Inl (PyExc ''Exception'' (lit ''OpenAI API error: Connection error.''))"
    and "length (snd (generate_email_reply (OpenAI network_down) (lit ''Hi, can we reschedule?'')
         (lit ''casual'') [])) = 1"
    using th [THEN conjunct1] c by simp_all
  moreover have "length (wire_log network_down
     (snd (generate_email_reply (OpenAI network_down) (lit ''Hi, can we reschedule?'')
        (lit ''casual'') []))) = 3"
    using th [THEN conjunct2, THEN conjunct2, THEN conjunct2, THEN conjunct2, rule_format,
        OF conjI [OF f f1]]
    by (simp add: l)
  ultimately show ?thesis
    using h by blast
qed

subsection \<open>C5: the request sent and the result returned\<close>

text \<open>
  C5: every call \<^verbatim>\<open>generate_email_reply\<close> makes passes exactly the keyword arguments
  \<^verbatim>\<open>model\<close>, always \<^verbatim>\<open>"gpt-4o-mini"\<close>, and \<^verbatim>\<open>messages\<close>, the instruction with the role
  \<^verbatim>\<open>system\<close> followed by the content with the role \<^verbatim>\<open>user\<close>, and nothing else; and
  when the service answers with at least one candidate, the result is the first
  candidate's content as it came, be it a string or \<^verbatim>\<open>None\<close>.
\<close>

theorem generate_email_reply_request:
  "snd (generate_email_reply svc email_content tone log) =
     log @ [[(''model'', StrArg (lit ''gpt-4o-mini'')),
             (''messages'', MessagesArg
                [\<lparr>role = lit ''system'',
                  content = lit ''Rephrase the following email in a '' @ tone @ lit '' tone.''\<rparr>,
                 \<lparr>role = lit ''user'', content = lit ''Email content: '' @ email_content\<rparr>])]] \<and>
   (svc [(''model'', StrArg (lit ''gpt-4o-mini'')),
         (''messages'', MessagesArg
            [\<lparr>role = lit ''system'',
              content = lit ''Rephrase the following email in a '' @ tone @ lit '' tone.''\<rparr>,
             \<lparr>role = lit ''user'', content = lit ''Email content: '' @ email_content\<rparr>])]
      = Inr response \<and> choices response = c # cs \<longrightarrow>
    fst (generate_email_reply svc email_content tone log) = Inr c)"
  by (simp add: generate_email_reply_def chat_completions_create_def Let_def)

text \<open>C5, witness: a service answering with two candidates.\<close>

theorem generate_email_reply_request_witness:
  "fst (generate_email_reply
          (\<lambda>req. Inr \<lparr>choices = [Some (lit ''Sure, how about Friday?''), Some (lit ''No.'')]\<rparr>)
          (lit ''Hi, can we reschedule?'') (lit ''casual'') []) =
     Inr (Some (lit ''Sure, how about Friday?'')) \<and>
   snd (generate_email_reply
          (\<lambda>req. Inr \<lparr>choices = [Some (lit ''Sure, how about Friday?''), Some (lit ''No.'')]\<rparr>)
          (lit ''Hi, can we reschedule?'') (lit ''casual'') []) =
     [[(''model'', StrArg (lit ''gpt-4o-mini'')),
       (''messages'', MessagesArg
          [\<lparr>role = lit ''system'', content = lit ''Rephrase the following email in a casual tone.''\<rparr>,
           \<lparr>role = lit ''user'', content = lit ''Email content: Hi, can we reschedule?''\<rparr>])]]"
proof -
  have c1: "lit ''Rephrase the following email in a '' @ lit ''casual'' @ lit '' tone.'' =
      lit ''Rephrase the following email in a casual tone.''"
    and c2: "lit ''Email content: '' @ lit ''Hi, can we reschedule?'' =
      lit ''Email content: Hi, can we reschedule?''"
    by (simp_all add: lit_def)
  show ?thesis
    using generate_email_reply_request
      [where svc = "\<lambda>req. Inr \<lparr>choices = [Some (lit ''Sure, how about Friday?''), Some (lit ''No.'')]\<rparr>"
         and tone = "lit ''casual''" and email_content = "lit ''Hi, can we reschedule?''"
         and log = "[]" and c = "Some (lit ''Sure, how about Friday?'')"
         and cs = "[Some (lit ''No.'')]"
         and response = "\<lparr>choices = [Some (lit ''Sure, how about Friday?''), Some (lit ''No.'')]\<rparr>"]
    unfolding c1 c2 by simp
qed

subsection \<open>C6: a completed request and the generate control\<close>

text \<open>
  C6: the claim is that every completed request ends with the generate control enabled.
  The code misses one case. When the service answers with a first candidate whose
  content is null, \<^verbatim>\<open>generate_email_reply\<close> returns \<^verbatim>\<open>None\<close>, against its docstring
  (\<^verbatim>\<open>Returns: str\<close>); the request counts as succeeded and \<^verbatim>\<open>_update_reply(None)\<close> is
  scheduled; there \<^verbatim>\<open>insert\<close> raises on line 129, before line 131 enables the control.
  The request is over, with no thread and no callback pending, and the control is
  disabled; by \<open>stuck_run\<close> it stays so whatever happens next. With a string for a reply,
  and when the call fails, the control is enabled
  (\<open>completed_request_reenables_unless_null\<close>).
\<close>

theorem null_reply_leaves_generate_disabled:
  "strip (contents (email_input (idle_app (lit ''Hi, can we reschedule?'') (lit ''casual'')))) \<noteq> [] \<and>
   fst (generate_email_reply stub_null (lit ''Hi, can we reschedule?'') (lit ''casual'') []) =
     Inr None \<and>
   after_queue (thread_run stub_null
     (generate_reply (idle_app (lit ''Hi, can we reschedule?'') (lit ''casual'')))) =
     [UpdateReply None] \<and>
   generate_button (mainloop_step (thread_run stub_null
     (generate_reply (idle_app (lit ''Hi, can we reschedule?'') (lit ''casual''))))) = DISABLED \<and>
   threads (mainloop_step (thread_run stub_null
     (generate_reply (idle_app (lit ''Hi, can we reschedule?'') (lit ''casual''))))) = [] \<and>
   after_queue (mainloop_step (thread_run stub_null
     (generate_reply (idle_app (lit ''Hi, can we reschedule?'') (lit ''casual''))))) = [] \<and>
   status_var (mainloop_step (thread_run stub_null
     (generate_reply (idle_app (lit ''Hi, can we reschedule?'') (lit ''casual''))))) =
     lit ''Generating reply...''"
proof -
  let ?s = "idle_app (lit ''Hi, can we reschedule?'') (lit ''casual'')"
  have e: "strip (contents (email_input ?s)) = lit ''Hi, can we reschedule?''"
    by (simp add: idle_app_def strip_def lit_def isspace_def)
  have h1: "strip (contents (email_input ?s)) \<noteq> []"
    unfolding e by (simp add: lit_def)
  have h2: "threads ?s = []"
    by (simp add: idle_app_def)
  have g: "fst (generate_email_reply stub_null (lit ''Hi, can we reschedule?'') (lit ''casual'') []) =
      Inr None"
    by (simp add: generate_email_reply_def chat_completions_create_def stub_null_def Let_def)
  have d: "thread_run stub_null (generate_reply ?s) =
      process_reply stub_null (strip (contents (email_input ?s))) (tone_var ?s)
        (?s\<lparr>generate_button := DISABLED, status_var := lit ''Generating reply...'',
           threads := []\<rparr>)"
    using h1 h2 by (rule thread_run_generate_reply)
  have q: "after_queue (thread_run stub_null (generate_reply ?s)) = [UpdateReply None]"
    and b: "generate_button (thread_run stub_null (generate_reply ?s)) = DISABLED"
    and t: "threads (thread_run stub_null (generate_reply ?s)) = []"
    and u: "status_var (thread_run stub_null (generate_reply ?s)) = lit ''Generating reply...''"
    unfolding d
    by (simp_all add: process_reply_def generate_email_reply_def chat_completions_create_def
        stub_null_def root_after_def idle_app_def Let_def)
  have m: "mainloop_step (thread_run stub_null (generate_reply ?s)) =
      state_of (update_reply None ((thread_run stub_null (generate_reply ?s))\<lparr>after_queue := []\<rparr>))"
    using q by (simp add: mainloop_step_def)
  have "generate_button (mainloop_step (thread_run stub_null (generate_reply ?s))) = DISABLED"
    and "threads (mainloop_step (thread_run stub_null (generate_reply ?s))) = []"
    and "after_queue (mainloop_step (thread_run stub_null (generate_reply ?s))) = []"
    and "status_var (mainloop_step (thread_run stub_null (generate_reply ?s))) =
      lit ''Generating reply...''"
    unfolding m using b t u by (simp_all add: update_reply_null)
  then show ?thesis
    using h1 g q by blast
qed

subsection \<open>C7: launch without an API key\<close>

text \<open>
  C7: when \<^verbatim>\<open>OPENAI_API_KEY\<close> is not in the environment, \<^verbatim>\<open>__init__\<close> raises a
  \<^verbatim>\<open>ValueError\<close> whose message says that no key was found and how to set one; \<^verbatim>\<open>main\<close>
  ends with that exception and never enters the event loop.
\<close>

theorem main_without_api_key:
  assumes "environ (lit ''OPENAI_API_KEY'') = None"
  shows "init environ clip =
      Inl (PyExc ''ValueError''
        (lit ''No OpenAI API key found. Please set OPENAI_API_KEY in your .env file.'')) \<and>
    main environ clip =
      Crashed (PyExc ''ValueError''
        (lit ''No OpenAI API key found. Please set OPENAI_API_KEY in your .env file.'')) \<and>
    (\<forall>a. main environ clip \<noteq> Mainloop a)"
  using assms by (simp add: main_def init_def)

text \<open>C7, witness: the empty environment.\<close>

theorem main_without_api_key_witness:
  "Map.empty (lit ''OPENAI_API_KEY'') = (None :: pystr option) \<and>
   main Map.empty [] =
      Crashed (PyExc ''ValueError''
        (lit ''No OpenAI API key found. Please set OPENAI_API_KEY in your .env file.''))"
proof -
  have h: "Map.empty (lit ''OPENAI_API_KEY'') = (None :: pystr option)"
    by simp
  show ?thesis
    using main_without_api_key [OF h, of "[]"] by simp
qed

subsection \<open>C8: showing an error\<close>

text \<open>
  C8, as stated, fails in its last part: the status is not set to the error message
  itself. For the message \<^verbatim>\<open>"boom"\<close> the status reads \<^verbatim>\<open>"Error: boom"\<close>.
\<close>

theorem show_error_status_counterexample:
  "status_var (show_error (lit ''boom'') (idle_app (lit ''hi'') (lit ''formal''))) =
     lit ''Error: boom'' \<and>
   status_var (show_error (lit ''boom'') (idle_app (lit ''hi'') (lit ''formal''))) \<noteq> lit ''boom''"
  by (simp add: show_error_def lit_def)

text \<open>
  C8, amended: for every error message, \<^verbatim>\<open>_show_error\<close> leaves the output region as it
  is, enables the generate control, and sets the status to \<^verbatim>\<open>"Error: "\<close> followed by
  the error message (which the status therefore contains).
\<close>

theorem show_error_frame:
  "reply_output (show_error error_message s) = reply_output s \<and>
   generate_button (show_error error_message s) = NORMAL \<and>
   status_var (show_error error_message s) = lit ''Error: '' @ error_message \<and>
   sublist error_message (status_var (show_error error_message s))"
  by (simp add: show_error_def)

subsection \<open>C9: clearing twice\<close>

text \<open>
  C9: \<^verbatim>\<open>clear_fields\<close> run twice gives the very state that running it once gives.
  After it the output region is empty, the status reads \<^verbatim>\<open>"Fields cleared"\<close>, and the
  input region, editable as it is in every state the application reaches
  (\<open>init_email_input_state\<close>, \<open>input_editable_run\<close>), is empty.
\<close>

theorem clear_fields_idempotent:
  "clear_fields (clear_fields s) = clear_fields s \<and>
   contents (reply_output (clear_fields s)) = [] \<and>
   status_var (clear_fields s) = lit ''Fields cleared'' \<and>
   (wstate (email_input s) = NORMAL \<longrightarrow> contents (email_input (clear_fields s)) = [])"
  by (simp add: clear_fields_def text_delete_def text_config_def)

text \<open>C9, witness: a state with text in both regions.\<close>

theorem clear_fields_idempotent_witness:
  "wstate (email_input (state_of (update_reply (Some (lit ''ok'')) (idle_app (lit ''hi'') (lit ''formal''))))) = NORMAL \<and>
   contents (email_input (state_of (update_reply (Some (lit ''ok'')) (idle_app (lit ''hi'') (lit ''formal''))))) = lit ''hi'' \<and>
   contents (reply_output (state_of (update_reply (Some (lit ''ok'')) (idle_app (lit ''hi'') (lit ''formal''))))) = lit ''ok'' \<and>
   clear_fields (clear_fields (state_of (update_reply (Some (lit ''ok'')) (idle_app (lit ''hi'') (lit ''formal''))))) =
     clear_fields (state_of (update_reply (Some (lit ''ok'')) (idle_app (lit ''hi'') (lit ''formal'')))) \<and>
   contents (email_input (clear_fields (state_of (update_reply (Some (lit ''ok'')) (idle_app (lit ''hi'') (lit ''formal'')))))) = [] \<and>
   contents (reply_output (clear_fields (state_of (update_reply (Some (lit ''ok'')) (idle_app (lit ''hi'') (lit ''formal'')))))) = [] \<and>
   status_var (clear_fields (state_of (update_reply (Some (lit ''ok'')) (idle_app (lit ''hi'') (lit ''formal''))))) =
     lit ''Fields cleared''"
proof -
  let ?s = "state_of (update_reply (Some (lit ''ok'')) (idle_app (lit ''hi'') (lit ''formal'')))"
  have h: "wstate (email_input ?s) = NORMAL"
    and i: "contents (email_input ?s) = lit ''hi''"
    and o: "contents (reply_output ?s) = lit ''ok''"
    by (simp_all add: update_reply_text idle_app_def)
  show ?thesis
    using clear_fields_idempotent [of ?s] h i o by blast
qed

subsection \<open>C10: the content part that reaches the service\<close>

text \<open>
  C10: for a request that passes validation (with no earlier request's thread pending),
  the content part of the request sent is \<^verbatim>\<open>"Email content: "\<close> followed by the input
  text with its surrounding whitespace trimmed. It differs from the raw input text, as
  typed and as read from the widget, and the part after the prefix neither starts nor
  ends with whitespace.
\<close>

theorem sent_content_is_prefixed_trimmed_input:
  assumes "strip (contents (email_input s)) \<noteq> []" and "threads s = []"
  shows "api_log (thread_run svc (generate_reply s)) =
      api_log s @
      [[(''model'', StrArg (lit ''gpt-4o-mini'')),
        (''messages'', MessagesArg
           [\<lparr>role = lit ''system'',
             content = lit ''Rephrase the following email in a '' @ tone_var s @ lit '' tone.''\<rparr>,
            \<lparr>role = lit ''user'',
             content = lit ''Email content: '' @ strip (contents (email_input s))\<rparr>])]] \<and>
    lit ''Email content: '' @ strip (contents (email_input s)) \<noteq> contents (email_input s) \<and>
    lit ''Email content: '' @ strip (contents (email_input s)) \<noteq> text_get (email_input s) \<and>
    \<not> isspace (hd (strip (contents (email_input s)))) \<and>
    \<not> isspace (last (strip (contents (email_input s))))"
proof -
  let ?e = "strip (contents (email_input s))"
  have "api_log (thread_run svc (generate_reply s)) =
      api_log s @
      [[(''model'', StrArg (lit ''gpt-4o-mini'')),
        (''messages'', MessagesArg
           [\<lparr>role = lit ''system'',
             content = lit ''Rephrase the following email in a '' @ tone_var s @ lit '' tone.''\<rparr>,
            \<lparr>role = lit ''user'', content = lit ''Email content: '' @ ?e\<rparr>])]]"
    using assms
    by (simp add: thread_run_generate_reply api_log_process_reply snd_generate_email_reply)
  moreover have "lit ''Email content: '' @ ?e \<noteq> contents (email_input s)"
    using assms(1) by (rule prefixed_strip_neq)
  moreover have "lit ''Email content: '' @ ?e \<noteq> text_get (email_input s)"
  proof -
    have "strip (text_get (email_input s)) \<noteq> []"
      unfolding strip_text_get by (rule assms(1))
    then have "lit ''Email content: '' @ strip (text_get (email_input s)) \<noteq> text_get (email_input s)"
      by (rule prefixed_strip_neq)
    then show ?thesis
      unfolding strip_text_get .
  qed
  moreover have "\<not> isspace (hd ?e)" and "\<not> isspace (last ?e)"
    using assms(1) by (rule hd_strip, rule last_strip)
  ultimately show ?thesis
    by blast
qed

text \<open>C10, witness: the input \<^verbatim>\<open>"  hi "\<close>, sent as \<^verbatim>\<open>"Email content: hi"\<close>.\<close>

theorem sent_content_is_prefixed_trimmed_input_witness:
  "strip (contents (email_input (idle_app (lit ''  hi '') (lit ''formal'')))) \<noteq> [] \<and>
   threads (idle_app (lit ''  hi '') (lit ''formal'')) = [] \<and>
   api_log (thread_run (stub_ok (lit ''ok'')) (generate_reply (idle_app (lit ''  hi '') (lit ''formal'')))) =
     [[(''model'', StrArg (lit ''gpt-4o-mini'')),
       (''messages'', MessagesArg
          [\<lparr>role = lit ''system'', content = lit ''Rephrase the following email in a formal tone.''\<rparr>,
           \<lparr>role = lit ''user'', content = lit ''Email content: hi''\<rparr>])]] \<and>
   lit ''Email content: hi'' \<noteq> contents (email_input (idle_app (lit ''  hi '') (lit ''formal'')))"
proof -
  let ?s = "idle_app (lit ''  hi '') (lit ''formal'')"
  have e: "strip (contents (email_input ?s)) = lit ''hi''"
    by (simp add: idle_app_def strip_def lit_def isspace_def)
  have h1: "strip (contents (email_input ?s)) \<noteq> []"
    unfolding e by (simp add: lit_def)
  have h2: "threads ?s = []" and l: "api_log ?s = []" and t: "tone_var ?s = lit ''formal''"
    by (simp_all add: idle_app_def)
  have c1: "lit ''Rephrase the following email in a '' @ lit ''formal'' @ lit '' tone.'' =
      lit ''Rephrase the following email in a formal tone.''"
    and c2: "lit ''Email content: '' @ lit ''hi'' = lit ''Email content: hi''"
    by (simp_all add: lit_def)
  show ?thesis
    using sent_content_is_prefixed_trimmed_input [OF h1 h2, of "stub_ok (lit ''ok'')"] h1 h2
    unfolding e l t c1 c2 by simp
qed

end
